theory Spec2Isabelle
  imports
    Complex_Main
    "HOL-Library.Char_ord"
    "HOL-Library.List_Lexorder"
    "HOL-Library.Product_Lexorder"
begin

section \<open>Data model\<close>

text \<open>
  A cell of a text column of the table that \<^verbatim>\<open>pd.read_csv\<close> produces: a Python string,
  or the float \<^verbatim>\<open>nan\<close> that stands for a missing value. Strings are byte lists; Python
  compares strings by code point, which on UTF-8 bytes is the same lexicographic order.
\<close>

datatype cell = Str string | NaN

text \<open>
  A point in time as pandas holds it (\<^verbatim>\<open>datetime64[ns]\<close>): nanoseconds since the epoch.
  \<^verbatim>\<open>NaT\<close> is \<open>None\<close> of the option type.
\<close>

type_synonym timestamp = int

text \<open>Python exceptions that the modelled code lets escape or catches.\<close>

datatype error = ValueError | AttributeError | TypeError

text \<open>
  One row of the uploaded table. The type of the date column depends on the stage and on
  the script: a raw \<open>cell\<close> after \<^verbatim>\<open>read_csv\<close>, a \<open>timestamp option\<close> after
  \<^verbatim>\<open>pd.to_datetime\<close>. Balances are numbers (finite floats are rationals, and float
  comparison is exact on them).
\<close>

record 'd account_row =
  account_id :: cell
  account_type :: cell
  branch :: cell
  customer_type :: cell
  account_status :: cell
  account_balance :: rat
  last_transaction_date :: 'd
  kyc_status :: cell
  email_contact_attempt :: cell
  sms_contact_attempt :: cell
  phone_call_attempt :: cell

text \<open>Assigning a converted date column gives the row a date of the new type.\<close>

definition with_date :: "'a account_row \<Rightarrow> 'b \<Rightarrow> 'b account_row" where
  "with_date r d =
     \<lparr>account_id = account_id r,
      account_type = account_type r,
      branch = branch r,
      customer_type = customer_type r,
      account_status = account_status r,
      account_balance = account_balance r,
      last_transaction_date = d,
      kyc_status = kyc_status r,
      email_contact_attempt = email_contact_attempt r,
      sms_contact_attempt = sms_contact_attempt r,
      phone_call_attempt = phone_call_attempt r\<rparr>"

text \<open>The rows of \<^verbatim>\<open>inactive_accounts\<close>: the table's columns plus the two added ones.\<close>

record inactive_row = "timestamp option account_row" +
  days_inactive :: int
  years_inactive :: rat

text \<open>The rows that \<^verbatim>\<open>categorize_by_inactivity\<close> returns.\<close>

record categorized_row = inactive_row +
  inactivity_category :: string
  contact_status :: string
  amount_category :: string

section \<open>Numbers and time\<close>

text \<open>
  Rounding to the nearest integer, ties to the even one: what \<^verbatim>\<open>numpy.rint\<close> does inside
  \<^verbatim>\<open>Series.round\<close> and what \<^verbatim>\<open>timedelta\<close> does when it rounds to microseconds.
\<close>

definition round_half_even :: "rat \<Rightarrow> int" where
  "round_half_even q =
     (let f = \<lfloor>q\<rfloor>; r = q - of_int f
      in if r < 1 / 2 then f
         else if 1 / 2 < r then f + 1
         else if even f then f else f + 1)"

text \<open>\<^verbatim>\<open>Series.round(2)\<close>: scale by 100, round, scale back.\<close>

definition round2 :: "rat \<Rightarrow> rat" where
  "round2 q = of_int (round_half_even (q * 100)) / 100"

definition ns_per_day :: int where
  "ns_per_day = 86400000000000"

text \<open>
  \<^verbatim>\<open>timedelta(days=d)\<close> for a number \<open>d\<close> of days, in nanoseconds: Python keeps whole
  microseconds.
\<close>

definition timedelta_days :: "rat \<Rightarrow> int" where
  "timedelta_days d = 1000 * round_half_even (d * 86400000000)"

text \<open>\<^verbatim>\<open>(a - b).dt.days\<close>: the whole days of a difference, rounded towards minus infinity.\<close>

definition dt_days :: "timestamp \<Rightarrow> timestamp \<Rightarrow> int" where
  "dt_days a b = (a - b) div ns_per_day"

text \<open>\<^verbatim>\<open>column < bound\<close> on a datetime column: \<^verbatim>\<open>NaT\<close> compares false.\<close>

fun date_before :: "timestamp option \<Rightarrow> timestamp \<Rightarrow> bool" where
  "date_before None bound = False"
| "date_before (Some t) bound = (t < bound)"

text \<open>\<^verbatim>\<open>Series.isin(values)\<close> on one cell.\<close>

definition isin :: "cell \<Rightarrow> cell list \<Rightarrow> bool" where
  "isin c vs = (c \<in> set vs)"

section \<open>The account inactivity checker (3yearsinactivityad.py)\<close>

subsection \<open>Loading\<close>

text \<open>
  What the date parser of \<^verbatim>\<open>pd.to_datetime\<close> makes of one string: a time, the null
  date (for tokens such as \<^verbatim>\<open>NaT\<close>), or a failure. The parser is library code and is
  a parameter of the model.
\<close>

datatype parse_result = Parsed timestamp | Null_date | Unparseable

type_synonym date_parser = "string \<Rightarrow> parse_result"

text \<open>\<^verbatim>\<open>pd.to_datetime(column)\<close> on one cell, with the default \<^verbatim>\<open>errors='raise'\<close>.\<close>

fun to_datetime_raise :: "date_parser \<Rightarrow> cell \<Rightarrow> error + timestamp option" where
  "to_datetime_raise p NaN = Inr None"
| "to_datetime_raise p (Str s) =
     (case p s of
        Parsed t \<Rightarrow> Inr (Some t)
      | Null_date \<Rightarrow> Inr None
      | Unparseable \<Rightarrow> Inl ValueError)"

text \<open>\<^verbatim>\<open>pd.to_datetime(column, errors='coerce')\<close> on one cell.\<close>

fun to_datetime_coerce :: "date_parser \<Rightarrow> cell \<Rightarrow> timestamp option" where
  "to_datetime_coerce p NaN = None"
| "to_datetime_coerce p (Str s) =
     (case p s of
        Parsed t \<Rightarrow> Some t
      | Null_date \<Rightarrow> None
      | Unparseable \<Rightarrow> None)"

text \<open>The conversion of a whole column stops at the first cell that raises.\<close>

fun convert_column :: "date_parser \<Rightarrow> cell account_row list
    \<Rightarrow> error + timestamp option account_row list" where
  "convert_column p [] = Inr []"
| "convert_column p (r # rs) =
     (case to_datetime_raise p (last_transaction_date r) of
        Inl e \<Rightarrow> Inl e
      | Inr d \<Rightarrow>
          (case convert_column p rs of
             Inl e \<Rightarrow> Inl e
           | Inr rs' \<Rightarrow> Inr (with_date r d # rs')))"

text \<open>
  The table held by the checker: as read (string dates) or with its date column
  converted.
\<close>

datatype frame =
  Raw "cell account_row list"
| Typed "timestamp option account_row list"

record checker =
  accounts_df :: "frame option"
  inactive_accounts :: "inactive_row list option"
  today :: timestamp

text \<open>
  \<^verbatim>\<open>load_account_data\<close>, from the table that \<^verbatim>\<open>read_csv\<close> returned. The raw table is
  stored first; a conversion that raises is caught, reported, and the answer is
  \<^verbatim>\<open>False\<close>.
\<close>

definition load_account_data :: "date_parser \<Rightarrow> checker \<Rightarrow> cell account_row list
    \<Rightarrow> bool \<times> checker" where
  "load_account_data p c rows =
     (case convert_column p rows of
        Inl e \<Rightarrow> (False, c\<lparr>accounts_df := Some (Raw rows)\<rparr>)
      | Inr rows' \<Rightarrow> (True, c\<lparr>accounts_df := Some (Typed rows')\<rparr>))"

subsection \<open>Identification of inactive accounts\<close>

definition cutoff_date :: "timestamp \<Rightarrow> rat \<Rightarrow> timestamp" where
  "cutoff_date now inactivity_years = now - timedelta_days (inactivity_years * 365)"

text \<open>The row mask: account type among the requested ones, and date before the cutoff.\<close>

definition selected :: "timestamp \<Rightarrow> rat \<Rightarrow> cell list \<Rightarrow> timestamp option account_row \<Rightarrow> bool" where
  "selected now inactivity_years account_types r =
     (isin (account_type r) account_types \<and>
      date_before (last_transaction_date r) (cutoff_date now inactivity_years))"

text \<open>
  The two columns added to a selected row: whole days since the last transaction, and
  the days over 365 rounded to two decimals. A row without a date has no such numbers
  and is never selected (see \<open>date_before\<close>), so the list is a singleton on every
  selected row.
\<close>

definition add_inactivity :: "timestamp \<Rightarrow> timestamp option account_row \<Rightarrow> inactive_row list" where
  "add_inactivity now r =
     (case last_transaction_date r of
        None \<Rightarrow> []
      | Some t \<Rightarrow>
          [account_row.extend r
             \<lparr>days_inactive = dt_days now t,
              years_inactive = round2 (of_int (dt_days now t) / 365)\<rparr>])"

text \<open>
  \<^verbatim>\<open>sort_values('days_inactive', ascending=False)\<close>. The order of rows with equal days
  is left open by the library's default sort; the model keeps them in table order.
\<close>

definition sort_days_desc :: "inactive_row list \<Rightarrow> inactive_row list" where
  "sort_days_desc rs = sort_key (\<lambda>r. - days_inactive r) rs"

text \<open>
  \<^verbatim>\<open>identify_inactive_accounts\<close>: \<^verbatim>\<open>None\<close> without a table; a table whose dates are
  still strings cannot be compared with the cutoff (\<^verbatim>\<open>TypeError\<close>); otherwise the
  selected rows, decorated and sorted, which are also stored in the checker.
\<close>

definition identify_inactive_accounts :: "checker \<Rightarrow> rat \<Rightarrow> cell list
    \<Rightarrow> (error + inactive_row list option) \<times> checker" where
  "identify_inactive_accounts c inactivity_years account_types =
     (case accounts_df c of
        None \<Rightarrow> (Inr None, c)
      | Some (Raw rows) \<Rightarrow> (Inl TypeError, c)
      | Some (Typed rows) \<Rightarrow>
          (let inactive =
                 sort_days_desc
                   (concat (map (add_inactivity (today c))
                      (filter (selected (today c) inactivity_years account_types) rows)))
           in (Inr (Some inactive), c\<lparr>inactive_accounts := Some inactive\<rparr>)))"

subsection \<open>Categorisation\<close>

text \<open>
  \<^verbatim>\<open>determine_category\<close>, with the three thresholds it reads from the enclosing call.
  The years and the thresholds are finite floats, whose comparison is exact: they are
  rationals here.
\<close>

definition determine_category :: "rat \<Rightarrow> rat \<Rightarrow> rat \<Rightarrow> rat \<Rightarrow> string" where
  "determine_category low_years medium_years high_years y =
     (if y > high_years then ''HIGH''
      else if y > medium_years then ''MEDIUM''
      else if y > low_years then ''LOW''
      else ''MONITOR'')"

definition determine_contact_status :: "('d, 'z) account_row_scheme \<Rightarrow> string" where
  "determine_contact_status row =
     (let attempts = (0::nat);
          attempts = (if email_contact_attempt row = Str ''Yes'' then attempts + 1 else attempts);
          attempts = (if sms_contact_attempt row = Str ''Yes'' then attempts + 1 else attempts);
          attempts = (if phone_call_attempt row = Str ''Yes'' then attempts + 1 else attempts)
      in if attempts = 0 then ''No Contact''
         else if attempts < 3 then ''Partial Contact''
         else ''Full Contact'')"

definition determine_amount :: "rat \<Rightarrow> string" where
  "determine_amount bal =
     (if bal > 300000 then ''HIGH''
      else if bal > 100000 then ''MEDIUM''
      else ''LOW'')"

definition categorize_row :: "rat \<Rightarrow> rat \<Rightarrow> rat \<Rightarrow> inactive_row \<Rightarrow> categorized_row" where
  "categorize_row low_years medium_years high_years r =
     inactive_row.extend r
       \<lparr>inactivity_category = determine_category low_years medium_years high_years (years_inactive r),
        contact_status = determine_contact_status r,
        amount_category = determine_amount (account_balance r)\<rparr>"

text \<open>
  \<^verbatim>\<open>categorize_by_inactivity\<close>: \<^verbatim>\<open>None\<close> (after a warning) when there are no inactive
  accounts, otherwise every stored row with its three labels. Nothing else is looked at
  before the labels are computed.
\<close>

definition categorize_by_inactivity :: "checker \<Rightarrow> rat \<Rightarrow> rat \<Rightarrow> rat
    \<Rightarrow> categorized_row list option" where
  "categorize_by_inactivity c low_years medium_years high_years =
     (case inactive_accounts c of
        None \<Rightarrow> None
      | Some rs \<Rightarrow>
          if rs = [] then None
          else Some (map (categorize_row low_years medium_years high_years) rs))"

subsection \<open>The table filters of the page (main, "Data Table" tab)\<close>




section \<open>The fixed deposit tracker (fdinactivity.py)\<close>

text \<open>The table after \<^verbatim>\<open>calculate_maturity_status\<close>; a missing date gives missing numbers.\<close>

record fd_row = "timestamp option account_row" +
  days_since_last_transaction :: "int option"
  years_since_last_transaction :: "rat option"
  inactive_flag :: bool
  maturity_status :: string

text \<open>A comparison with a missing number is false.\<close>

fun num_test :: "(rat \<Rightarrow> bool) \<Rightarrow> rat option \<Rightarrow> bool" where
  "num_test P None = False"
| "num_test P (Some y) = P y"

definition calculate_maturity_row :: "timestamp \<Rightarrow> timestamp option account_row \<Rightarrow> fd_row" where
  "calculate_maturity_row current_date r =
     (let days = map_option (dt_days current_date) (last_transaction_date r);
          years = map_option (\<lambda>d. of_int d / (1461 / 4)) days
      in account_row.extend r
           \<lparr>days_since_last_transaction = days,
            years_since_last_transaction = years,
            inactive_flag = num_test (\<lambda>y. 3 \<le> y) years,
            maturity_status =
              (if num_test (\<lambda>y. y < 1) years then ''Active''
               else if num_test (\<lambda>y. 1 \<le> y \<and> y < 2) years then ''Approaching Inactivity''
               else if num_test (\<lambda>y. 2 \<le> y \<and> y < 3) years then ''High Risk''
               else if num_test (\<lambda>y. 3 \<le> y) years then ''Inactive''
               else ''Unknown'')\<rparr>)"


section \<open>The investment inactivity scripts (investment_inactivity.py, inactive_account.py)\<close>

text \<open>
  \<^verbatim>\<open>str.lower\<close> on the ASCII letters; other bytes stay (no string with a byte outside
  ASCII lowers to \<^verbatim>\<open>no\<close>).
\<close>

definition lower_char :: "char \<Rightarrow> char" where
  "lower_char c =
     (if CHR ''A'' \<le> c \<and> c \<le> CHR ''Z'' then char_of (of_char c + (32::nat)) else c)"

definition lower :: "string \<Rightarrow> string" where
  "lower s = map lower_char s"

text \<open>
  \<^verbatim>\<open>str.contains(pat, case=False)\<close> for a pattern without regular-expression operators:
  the pattern occurs somewhere, letters compared without case (ASCII letters in the
  model).
\<close>

fun occurs_in :: "string \<Rightarrow> string \<Rightarrow> bool" where
  "occurs_in pat [] = (pat = [])"
| "occurs_in pat (c # cs) = (take (length pat) (c # cs) = pat \<or> occurs_in pat cs)"

definition contains_nocase :: "string \<Rightarrow> string \<Rightarrow> bool" where
  "contains_nocase pat s = occurs_in (lower pat) (lower s)"

text \<open>
  A column read without any string in it is a float column, and \<^verbatim>\<open>.str\<close> on it raises
  \<^verbatim>\<open>AttributeError\<close>.
\<close>

definition float_column :: "cell list \<Rightarrow> bool" where
  "float_column col = (col \<noteq> [] \<and> list_all (\<lambda>c. c = NaN) col)"

text \<open>\<^verbatim>\<open>column.str.lower() == 'no'\<close> on one cell; a missing value compares false.\<close>

fun lower_is_no :: "cell \<Rightarrow> bool" where
  "lower_is_no NaN = False"
| "lower_is_no (Str s) = (lower s = ''no'')"

text \<open>
  \<^verbatim>\<open>df[df['Account Type'].str.contains(pat, case=False)]\<close>: a missing account type
  leaves a missing value in the mask, which cannot index the table (\<^verbatim>\<open>ValueError\<close>).
\<close>

definition rows_of_type :: "string \<Rightarrow> 'd account_row list \<Rightarrow> error + 'd account_row list" where
  "rows_of_type pat df =
     (if float_column (map account_type df) then Inl AttributeError
      else if NaN \<in> set (map account_type df) then Inl ValueError
      else Inr (filter (\<lambda>r. case account_type r of Str s \<Rightarrow> contains_nocase pat s | NaN \<Rightarrow> False) df))"

text \<open>
  investment_inactivity.py, lines 20 to 31: dates converted with \<^verbatim>\<open>errors='coerce'\<close>,
  the threshold three times 365 days before now, the investment rows, and among them
  those before the threshold with all three contact attempts \<^verbatim>\<open>no\<close>.
\<close>

definition violations :: "date_parser \<Rightarrow> timestamp \<Rightarrow> cell account_row list
    \<Rightarrow> error + timestamp option account_row list" where
  "violations p now raw =
     (let df = map (\<lambda>r. with_date r (to_datetime_coerce p (last_transaction_date r))) raw;
          threshold_date = now - (3 * 365) * ns_per_day
      in case rows_of_type ''Investment'' df of
           Inl e \<Rightarrow> Inl e
         | Inr investment_df \<Rightarrow>
             if float_column (map email_contact_attempt df) \<or>
                float_column (map sms_contact_attempt df) \<or>
                float_column (map phone_call_attempt df)
             then Inl AttributeError
             else Inr (filter (\<lambda>r. date_before (last_transaction_date r) threshold_date \<and>
                                   lower_is_no (email_contact_attempt r) \<and>
                                   lower_is_no (sms_contact_attempt r) \<and>
                                   lower_is_no (phone_call_attempt r)) investment_df))"

text \<open>inactive_account.py, lines 20 to 32, repeats the same statements under another name.\<close>

definition inactive_investments :: "date_parser \<Rightarrow> timestamp \<Rightarrow> cell account_row list
    \<Rightarrow> error + timestamp option account_row list" where
  "inactive_investments p now raw = violations p now raw"

section \<open>The transfer agent (dormantacctransfer.py)\<close>

text \<open>
  A Python \<^verbatim>\<open>datetime\<close>: year, month, day, hour, minute, second, microsecond, compared
  field by field from the left.
\<close>

type_synonym datetime = "nat \<times> nat \<times> nat \<times> nat \<times> nat \<times> nat \<times> nat"

text \<open>
  \<^verbatim>\<open>clean_date\<close>. The parameter is \<^verbatim>\<open>datetime.strptime(_, "%Y-%m-%d")\<close>, with \<open>None\<close> for
  its \<^verbatim>\<open>ValueError\<close>, which the function catches. A missing cell is a float and has
  no \<^verbatim>\<open>split\<close>: that \<^verbatim>\<open>AttributeError\<close> is not caught.
\<close>

fun clean_date :: "(string \<Rightarrow> datetime option) \<Rightarrow> cell \<Rightarrow> error + datetime option" where
  "clean_date strptime NaN = Inl AttributeError"
| "clean_date strptime (Str date_string) =
     (let clean_string = takeWhile (\<lambda>ch. ch \<noteq> CHR ''T'') date_string
      in Inr (strptime clean_string))"

text \<open>\<^verbatim>\<open>column.apply(clean_date)\<close>: the first exception ends the run.\<close>

fun clean_column :: "(string \<Rightarrow> datetime option) \<Rightarrow> cell list \<Rightarrow> error + datetime option list" where
  "clean_column strptime [] = Inr []"
| "clean_column strptime (x # xs) =
     (case clean_date strptime x of
        Inl e \<Rightarrow> Inl e
      | Inr d \<Rightarrow>
          (case clean_column strptime xs of
             Inl e \<Rightarrow> Inl e
           | Inr ds \<Rightarrow> Inr (d # ds)))"

definition check_transfer_eligibility :: "datetime option \<Rightarrow> string" where
  "check_transfer_eligibility last_transaction =
     (let cutoff = (2020, 4, 24, 0, 0, 0, 0)
      in if (case last_transaction of None \<Rightarrow> False | Some t \<Rightarrow> t \<le> cutoff)
         then ''Eligible for Transfer'' else ''Not Eligible'')"

section \<open>The freeze agent (freezeaccount.py)\<close>

text \<open>
  \<^verbatim>\<open>freeze_account\<close> on three raw cells; the date is still text and is compared as
  text. The conditions are tried from the left and the first false one ends the test;
  a missing date that is reached cannot be compared with a string (\<^verbatim>\<open>TypeError\<close>).
\<close>

definition freeze_account :: "cell \<Rightarrow> cell \<Rightarrow> cell \<Rightarrow> error + string" where
  "freeze_account status transaction_date kyc =
     (if status = Str ''Dormant'' then
        (case transaction_date of
           NaN \<Rightarrow> Inl TypeError
         | Str d \<Rightarrow>
             if d < ''2022-01-01'' \<and> kyc = Str ''Expired'' then Inr ''Frozen''
             else Inr ''Active'')
      else Inr ''Active'')"

section \<open>The order of the tiers\<close>

text \<open>The position of a tier label in the order MONITOR, LOW, MEDIUM, HIGH.\<close>

definition tier_rank :: "string \<Rightarrow> nat" where
  "tier_rank s =
     (if s = ''MONITOR'' then 0
      else if s = ''LOW'' then 1
      else if s = ''MEDIUM'' then 2
      else 3)"

section \<open>Example tables\<close>

text \<open>2019-01-01 00:00:00 in nanoseconds since the epoch.\<close>

definition example_date :: timestamp where
  "example_date = 1546300800000000000"

definition example_parser :: date_parser where
  "example_parser s =
     (if s = ''2019-01-01'' then Parsed example_date
      else if s = ''NaT'' then Null_date
      else Unparseable)"

definition example_raw :: "string \<Rightarrow> cell \<Rightarrow> cell account_row" where
  "example_raw ident d =
     \<lparr>account_id = Str ident,
      account_type = Str ''Investment'',
      branch = Str ''Main Branch'',
      customer_type = Str ''Individual'',
      account_status = Str ''Dormant'',
      account_balance = 350000,
      last_transaction_date = d,
      kyc_status = Str ''Expired'',
      email_contact_attempt = Str ''no'',
      sms_contact_attempt = Str ''No'',
      phone_call_attempt = Str ''NO''\<rparr>"

definition example_row :: "timestamp option account_row" where
  "example_row =
     \<lparr>account_id = Str ''ACC0001'',
      account_type = Str ''Savings/Call/Current'',
      branch = Str ''Main Branch'',
      customer_type = Str ''Individual'',
      account_status = Str ''Dormant'',
      account_balance = 350000,
      last_transaction_date = Some example_date,
      kyc_status = Str ''Expired'',
      email_contact_attempt = Str ''Yes'',
      sms_contact_attempt = Str ''No'',
      phone_call_attempt = Str ''No''\<rparr>"

text \<open>A checker holding the one example row, \<open>d\<close> whole days after its last transaction.\<close>

definition example_checker :: "int \<Rightarrow> checker" where
  "example_checker d =
     \<lparr>accounts_df = Some (Typed [example_row]),
      inactive_accounts = None,
      today = example_date + d * ns_per_day\<rparr>"

text \<open>
  A table of six accounts for the identification step, told apart by identifier, account
  type and last transaction (a number of whole days after the example date, or none).
\<close>

definition table_row :: "string \<Rightarrow> string \<Rightarrow> int option \<Rightarrow> timestamp option account_row" where
  "table_row ident type days_after =
     \<lparr>account_id = Str ident,
      account_type = Str type,
      branch = Str ''Main Branch'',
      customer_type = Str ''Individual'',
      account_status = Str ''Dormant'',
      account_balance = 50000,
      last_transaction_date = map_option (\<lambda>d. example_date + d * 86400000000000) days_after,
      kyc_status = Str ''Expired'',
      email_contact_attempt = Str ''No'',
      sms_contact_attempt = Str ''No'',
      phone_call_attempt = Str ''No''\<rparr>"

definition example_table :: "timestamp option account_row list" where
  "example_table =
     [table_row ''B'' ''Savings/Call/Current'' (Some 500),
      table_row ''C'' ''Fixed Deposit'' (Some 0),
      table_row ''A'' ''Savings/Call/Current'' (Some 0),
      table_row ''D'' ''Savings/Call/Current'' (Some 1500),
      table_row ''E'' ''Savings/Call/Current'' None,
      table_row ''F'' ''Savings/Call/Current'' (Some (- 100))]"

text \<open>A checker holding that table, 2000 whole days after the example date.\<close>

definition table_checker :: checker where
  "table_checker =
     \<lparr>accounts_df = Some (Typed example_table),
      inactive_accounts = None,
      today = example_date + 2000 * 86400000000000\<rparr>"

text \<open>A row of the table as the identification step decorates it.\<close>

definition table_inactive :: "string \<Rightarrow> int \<Rightarrow> int \<Rightarrow> rat \<Rightarrow> inactive_row" where
  "table_inactive ident days_after d y =
     account_row.extend (table_row ident ''Savings/Call/Current'' (Some days_after))
       \<lparr>days_inactive = d, years_inactive = y\<rparr>"

text \<open>The example row as the identification step decorates it.\<close>

definition example_inactive :: "int \<Rightarrow> rat \<Rightarrow> inactive_row" where
  "example_inactive d y = account_row.extend example_row \<lparr>days_inactive = d, years_inactive = y\<rparr>"

text \<open>The two steps of the page in a row: identification, then categorisation.\<close>

definition example_run :: "int \<Rightarrow> rat \<Rightarrow> rat \<Rightarrow> rat \<Rightarrow> categorized_row list option" where
  "example_run d low_years medium_years high_years =
     categorize_by_inactivity
       (snd (identify_inactive_accounts (example_checker d) 3 [Str ''Savings/Call/Current'']))
       low_years medium_years high_years"

section \<open>Shared facts\<close>

lemma add_inactivity_years:
  "r' \<in> set (add_inactivity now r) \<Longrightarrow>
   years_inactive r' = round2 (of_int (days_inactive r') / 365)"
  by (auto simp: add_inactivity_def account_row.extend_def split: option.splits)

lemma add_inactivity_fields:
  "r' \<in> set (add_inactivity now r) \<Longrightarrow>
   account_type r' = account_type r \<and> last_transaction_date r' = last_transaction_date r"
  by (auto simp: add_inactivity_def account_row.extend_def account_row.defs split: option.splits)

lemma add_inactivity_selected:
  "selected now y ts r \<Longrightarrow> length (add_inactivity now r) = 1"
  by (cases "last_transaction_date r") (auto simp: selected_def add_inactivity_def)

lemma set_sort_days_desc: "set (sort_days_desc rs) = set rs"
  by (simp add: sort_days_desc_def)

lemma sorted_sort_days_desc:
  "sorted_wrt (\<lambda>a b. days_inactive b \<le> days_inactive a) (sort_days_desc rs)"
proof -
  have "sorted (map (\<lambda>r. - days_inactive r) (sort_days_desc rs))"
    unfolding sort_days_desc_def by (rule sorted_sort_key)
  then show ?thesis by (simp add: sorted_map)
qed

lemma identify_result:
  assumes "identify_inactive_accounts c y ts = (Inr (Some rs), c')"
  obtains rows where "accounts_df c = Some (Typed rows)"
    and "rs = sort_days_desc (concat (map (add_inactivity (today c))
                (filter (selected (today c) y ts) rows)))"
    and "c' = c\<lparr>inactive_accounts := Some rs\<rparr>"
  using assms
  by (auto simp: identify_inactive_accounts_def Let_def split: option.splits frame.splits)

lemma identified_row:
  assumes "identify_inactive_accounts c y ts = (Inr (Some rs), c')" and "r \<in> set rs"
  obtains r0 where "selected (today c) y ts r0" and "r \<in> set (add_inactivity (today c) r0)"
proof -
  from assms(1) obtain rows where
    "rs = sort_days_desc (concat (map (add_inactivity (today c))
            (filter (selected (today c) y ts) rows)))"
    by (rule identify_result)
  with assms(2) show ?thesis
    using that by (auto simp: set_sort_days_desc)
qed

lemma categorize_row_category:
  "inactivity_category (categorize_row low medium high r)
     = determine_category low medium high (years_inactive r)"
  by (simp add: categorize_row_def inactive_row.extend_def)

lemma categorize_row_days:
  "days_inactive (categorize_row low medium high r) = days_inactive r \<and>
   years_inactive (categorize_row low medium high r) = years_inactive r"
  by (simp add: categorize_row_def inactive_row.extend_def inactive_row.defs)

lemma example_identify:
  "identify_inactive_accounts (example_checker 1462) 3 [Str ''Savings/Call/Current'']
     = (Inr (Some [example_inactive 1462 (401 / 100)]),
        (example_checker 1462)\<lparr>inactive_accounts := Some [example_inactive 1462 (401 / 100)]\<rparr>)"
  by code_simp

text \<open>
  The rounding of the years never meets a tie: a whole number of days over 365, times
  100, is never half way between two integers. So the tie rule plays no part, and the
  nearest integer is far enough (at least 1/146) for the float computation of the
  source to agree with the exact one.
\<close>

lemma days_over_365_no_tie:
  "(of_int d / 365 * 100 :: rat) - of_int \<lfloor>of_int d / 365 * 100 :: rat\<rfloor> \<noteq> 1 / 2"
proof
  define f where "f = \<lfloor>of_int d / 365 * 100 :: rat\<rfloor>"
  assume "(of_int d / 365 * 100 :: rat) - of_int \<lfloor>of_int d / 365 * 100 :: rat\<rfloor> = 1 / 2"
  then have "(of_int d / 365 * 100 :: rat) - of_int f = 1 / 2"
    by (simp only: f_def)
  then have "(of_int d * 200 :: rat) = 365 * (2 * of_int f + 1)"
    by (simp add: field_simps)
  then have "(of_int (d * 200) :: rat) = of_int (365 * (2 * f + 1))"
    by simp
  then have eq: "d * 200 = 365 * (2 * f + 1)"
    by (simp only: of_int_eq_iff)
  have "even (d * 200)" by simp
  moreover have "odd (365 * (2 * f + 1))" by simp
  ultimately show False
    by (simp only: eq)
qed

lemma round_half_even_no_tie:
  fixes q :: rat
  assumes "q - of_int \<lfloor>q\<rfloor> \<noteq> 1 / 2"
  shows "round_half_even q = \<lfloor>q + 1 / 2\<rfloor>"
proof -
  define f where "f = \<lfloor>q\<rfloor>"
  have lo: "of_int f \<le> q" and hi: "q < of_int f + 1"
    unfolding f_def by linarith+
  have tie: "q - of_int f \<noteq> 1 / 2"
    unfolding f_def by (rule assms)
  show ?thesis
  proof (cases "q - of_int f < 1 / 2")
    case True
    have "\<lfloor>q + 1 / 2\<rfloor> = f"
    proof (rule floor_unique)
      show "of_int f \<le> q + 1 / 2" using lo by linarith
      show "q + 1 / 2 < of_int f + 1" using True by linarith
    qed
    with True show ?thesis
      by (simp add: round_half_even_def Let_def f_def)
  next
    case False
    with tie have gt: "1 / 2 < q - of_int f" by linarith
    have "\<lfloor>q + 1 / 2\<rfloor> = f + 1"
    proof (rule floor_unique)
      show "of_int (f + 1) \<le> q + 1 / 2" using gt by simp
      show "q + 1 / 2 < of_int (f + 1) + 1" using hi by simp
    qed
    with False gt show ?thesis
      by (simp add: round_half_even_def Let_def f_def)
  qed
qed

lemma round2_days:
  "round2 (of_int d / 365) = of_int \<lfloor>of_int d / 365 * 100 + 1 / 2 :: rat\<rfloor> / 100"
  by (simp only: round2_def round_half_even_no_tie [OF days_over_365_no_tie])

lemma round_half_even_int: "round_half_even (of_int n) = n"
  by (simp add: round_half_even_def)

text \<open>
  For a whole number \<open>k\<close> of half years (the steps of the page's slider) the cutoff
  distance is exactly \<open>k\<close> times 182.5 days: no rounding happens.
\<close>

lemma timedelta_half_years:
  "timedelta_days (of_int k / 2 * 365) = k * 365 * (ns_per_day div 2)"
proof -
  have "(of_int k / 2 * 365 * 86400000000 :: rat) = of_int (k * 365 * 43200000000)"
    by simp
  then have "round_half_even (of_int k / 2 * 365 * 86400000000) = k * 365 * 43200000000"
    by (simp only: round_half_even_int)
  then show ?thesis
    by (simp add: timedelta_days_def ns_per_day_def)
qed

section \<open>C1: the tier boundary on the value the pipeline feeds\<close>

text \<open>
  C1, counterexample. The example account is 1461 whole days past its last transaction,
  that is more than four years (1461 / 365), and with thresholds 3, 4, 5 the page
  labels it LOW, not MEDIUM: its elapsed years reach the classifier rounded to 4.0.
\<close>

theorem pipeline_tier_boundary_counterexample:
  "map_option (map (\<lambda>r. (days_inactive r, inactivity_category r))) (example_run 1461 3 4 5)
     = Some [(1461, ''LOW'')] \<and>
   (4::rat) < 1461 / 365"
  by code_simp

text \<open>
  C1, as amended. The classifier compares the value it is given with strict \<open>>\<close>: HIGH
  exactly above \<open>high\<close>, else MEDIUM exactly above \<open>medium\<close>, else LOW exactly above
  \<open>low\<close>, else MONITOR; with thresholds 3, 4, 5 the value 4.0 is LOW and 4.0001 is
  MEDIUM. In the pipeline the value given is \<open>years_inactive\<close>, the whole days over 365
  rounded to two decimals, and every returned row carries the tier of that rounded
  value.
\<close>

theorem tier_strict_on_rounded_years:
  "(determine_category low medium high E = ''HIGH'' \<longleftrightarrow> high < E) \<and>
   (determine_category low medium high E = ''MEDIUM'' \<longleftrightarrow> \<not> high < E \<and> medium < E) \<and>
   (determine_category low medium high E = ''LOW''
      \<longleftrightarrow> \<not> high < E \<and> \<not> medium < E \<and> low < E) \<and>
   (determine_category low medium high E = ''MONITOR''
      \<longleftrightarrow> \<not> high < E \<and> \<not> medium < E \<and> \<not> low < E) \<and>
   determine_category 3 4 5 4 = ''LOW'' \<and>
   determine_category 3 4 5 (40001 / 10000) = ''MEDIUM'' \<and>
   (identify_inactive_accounts c y ts = (Inr (Some rs), c') \<and>
    categorize_by_inactivity c' low medium high = Some res \<longrightarrow>
      (\<forall>r \<in> set res.
         years_inactive r = round2 (of_int (days_inactive r) / 365) \<and>
         inactivity_category r = determine_category low medium high (years_inactive r)))"
proof -
  have cascade:
    "(determine_category low medium high E = ''HIGH'' \<longleftrightarrow> high < E) \<and>
     (determine_category low medium high E = ''MEDIUM'' \<longleftrightarrow> \<not> high < E \<and> medium < E) \<and>
     (determine_category low medium high E = ''LOW''
        \<longleftrightarrow> \<not> high < E \<and> \<not> medium < E \<and> low < E) \<and>
     (determine_category low medium high E = ''MONITOR''
        \<longleftrightarrow> \<not> high < E \<and> \<not> medium < E \<and> \<not> low < E)"
    by (simp add: determine_category_def)
  have ex: "determine_category 3 4 5 4 = ''LOW'' \<and>
            determine_category 3 4 5 (40001 / 10000) = ''MEDIUM''"
    by (simp add: determine_category_def)
  have rows: "years_inactive r = round2 (of_int (days_inactive r) / 365) \<and>
              inactivity_category r = determine_category low medium high (years_inactive r)"
    if run: "identify_inactive_accounts c y ts = (Inr (Some rs), c')"
      and cat: "categorize_by_inactivity c' low medium high = Some res"
      and r: "r \<in> set res" for r
  proof -
    from run have stored: "inactive_accounts c' = Some rs"
      by (auto elim: identify_result)
    with cat have res: "res = map (categorize_row low medium high) rs"
      by (auto simp: categorize_by_inactivity_def split: if_splits)
    with r obtain r1 where r1: "r1 \<in> set rs" "r = categorize_row low medium high r1"
      by auto
    from run r1(1) obtain r0 where "r1 \<in> set (add_inactivity (today c) r0)"
      by (rule identified_row)
    then have "years_inactive r1 = round2 (of_int (days_inactive r1) / 365)"
      by (rule add_inactivity_years)
    then show ?thesis
      unfolding r1(2) by (simp add: categorize_row_category categorize_row_days)
  qed
  from cascade ex rows show ?thesis by blast
qed

theorem tier_strict_on_rounded_years_witness:
  "identify_inactive_accounts (example_checker 1462) 3 [Str ''Savings/Call/Current'']
     = (Inr (Some [example_inactive 1462 (401 / 100)]),
        (example_checker 1462)\<lparr>inactive_accounts := Some [example_inactive 1462 (401 / 100)]\<rparr>) \<and>
   categorize_by_inactivity
       ((example_checker 1462)\<lparr>inactive_accounts := Some [example_inactive 1462 (401 / 100)]\<rparr>) 3 4 5
     = Some [categorize_row 3 4 5 (example_inactive 1462 (401 / 100))] \<and>
   years_inactive (categorize_row 3 4 5 (example_inactive 1462 (401 / 100)))
     = round2 (of_int (days_inactive (categorize_row 3 4 5 (example_inactive 1462 (401 / 100)))) / 365) \<and>
   inactivity_category (categorize_row 3 4 5 (example_inactive 1462 (401 / 100))) = ''MEDIUM'' \<and>
   (determine_category 3 4 5 (401 / 100) = ''MEDIUM'' \<longleftrightarrow> \<not> (5::rat) < 401 / 100 \<and> (4::rat) < 401 / 100) \<and>
   map_option (map (\<lambda>r. (days_inactive r, years_inactive r, inactivity_category r)))
       (example_run 1460 3 4 5) = Some [(1460, 4, ''LOW'')] \<and>
   map_option (map (\<lambda>r. (days_inactive r, years_inactive r, inactivity_category r)))
       (example_run 1462 3 4 5) = Some [(1462, 401 / 100, ''MEDIUM'')]"
proof -
  note run = example_identify
  have cat: "categorize_by_inactivity
       ((example_checker 1462)\<lparr>inactive_accounts := Some [example_inactive 1462 (401 / 100)]\<rparr>) 3 4 5
     = Some [categorize_row 3 4 5 (example_inactive 1462 (401 / 100))]"
    by (simp add: categorize_by_inactivity_def)
  have lab: "inactivity_category (categorize_row 3 4 5 (example_inactive 1462 (401 / 100))) = ''MEDIUM''"
    by code_simp
  have runs: "map_option (map (\<lambda>r. (days_inactive r, years_inactive r, inactivity_category r)))
       (example_run 1460 3 4 5) = Some [(1460, 4, ''LOW'')] \<and>
     map_option (map (\<lambda>r. (days_inactive r, years_inactive r, inactivity_category r)))
       (example_run 1462 3 4 5) = Some [(1462, 401 / 100, ''MEDIUM'')]"
    by code_simp
  from tier_strict_on_rounded_years
         [of 3 4 5 "401 / 100" "example_checker 1462" 3 "[Str ''Savings/Call/Current'']"
             "[example_inactive 1462 (401 / 100)]"
             "(example_checker 1462)\<lparr>inactive_accounts := Some [example_inactive 1462 (401 / 100)]\<rparr>"
             "[categorize_row 3 4 5 (example_inactive 1462 (401 / 100))]"] run cat
  have "years_inactive (categorize_row 3 4 5 (example_inactive 1462 (401 / 100)))
     = round2 (of_int (days_inactive (categorize_row 3 4 5 (example_inactive 1462 (401 / 100)))) / 365) \<and>
    (determine_category 3 4 5 (401 / 100) = ''MEDIUM'' \<longleftrightarrow> \<not> (5::rat) < 401 / 100 \<and> (4::rat) < 401 / 100)"
    by simp
  with run cat lab runs show ?thesis by blast
qed

section \<open>C2: no validation of the order of the thresholds\<close>

text \<open>
  C2, counterexample. With the thresholds out of order (low 5, medium 4, high 3) the
  classification of the example account is not rejected: it returns the row, labelled
  HIGH.
\<close>

theorem misordered_thresholds_counterexample:
  "(4::rat) \<le> 5 \<and> (3::rat) \<le> 4 \<and>
   map_option (map inactivity_category) (example_run 1461 5 4 3) = Some [''HIGH'']"
  by code_simp

text \<open>
  C2, as amended. \<open>categorize_by_inactivity\<close> never looks at the order of the thresholds:
  whenever inactive accounts are stored it returns every row with the label of the
  cascade, whatever the three numbers are. Out of order they leave labels unreachable:
  no MEDIUM when \<open>high \<le> medium\<close>, no LOW when \<open>medium \<le> low\<close>.
\<close>

theorem categorize_accepts_any_thresholds:
  assumes "inactive_accounts c = Some rs" and "rs \<noteq> []"
  shows "categorize_by_inactivity c low medium high
           = Some (map (categorize_row low medium high) rs) \<and>
         map inactivity_category (map (categorize_row low medium high) rs)
           = map (\<lambda>r. determine_category low medium high (years_inactive r)) rs \<and>
         (high \<le> medium \<longrightarrow>
            ''MEDIUM'' \<notin> set (map inactivity_category (map (categorize_row low medium high) rs))) \<and>
         (medium \<le> low \<longrightarrow>
            ''LOW'' \<notin> set (map inactivity_category (map (categorize_row low medium high) rs)))"
proof -
  have "categorize_by_inactivity c low medium high
          = Some (map (categorize_row low medium high) rs)"
    using assms by (simp add: categorize_by_inactivity_def)
  moreover have labels: "map inactivity_category (map (categorize_row low medium high) rs)
          = map (\<lambda>r. determine_category low medium high (years_inactive r)) rs"
    by (simp add: categorize_row_category)
  moreover have "''MEDIUM'' \<notin> set (map inactivity_category (map (categorize_row low medium high) rs))"
    if "high \<le> medium"
    unfolding labels using that by (auto simp: determine_category_def)
  moreover have "''LOW'' \<notin> set (map inactivity_category (map (categorize_row low medium high) rs))"
    if "medium \<le> low"
    unfolding labels using that by (auto simp: determine_category_def)
  ultimately show ?thesis by blast
qed

theorem categorize_accepts_any_thresholds_witness:
  "inactive_accounts ((example_checker 1461)\<lparr>inactive_accounts := Some [example_inactive 1461 4]\<rparr>)
     = Some [example_inactive 1461 4] \<and>
   [example_inactive 1461 4] \<noteq> [] \<and>
   categorize_by_inactivity
       ((example_checker 1461)\<lparr>inactive_accounts := Some [example_inactive 1461 4]\<rparr>) 5 4 3
     = Some (map (categorize_row 5 4 3) [example_inactive 1461 4]) \<and>
   (3::rat) \<le> 4 \<and> (4::rat) \<le> 5 \<and>
   ''MEDIUM'' \<notin> set (map inactivity_category (map (categorize_row 5 4 3) [example_inactive 1461 4])) \<and>
   ''LOW'' \<notin> set (map inactivity_category (map (categorize_row 5 4 3) [example_inactive 1461 4]))"
proof -
  have a: "inactive_accounts ((example_checker 1461)\<lparr>inactive_accounts := Some [example_inactive 1461 4]\<rparr>)
     = Some [example_inactive 1461 4]"
    by simp
  have b: "[example_inactive 1461 4] \<noteq> []"
    by simp
  have c: "(3::rat) \<le> 4" "(4::rat) \<le> 5"
    by simp_all
  from a b c categorize_accepts_any_thresholds [OF a b, of 5 4 3]
  show ?thesis by blast
qed

section \<open>C3: the contact tier counts exact "Yes" values\<close>

text \<open>
  C3, counterexample. Flags \<open>yes\<close>, \<open>YES\<close>, \<open>Yes\<close> give "Partial Contact" (only the
  third is counted), and three flags \<open>yes\<close> give "No Contact".
\<close>

theorem contact_status_case_counterexample:
  "determine_contact_status
      (example_row\<lparr>email_contact_attempt := Str ''yes'',
                   sms_contact_attempt := Str ''YES'',
                   phone_call_attempt := Str ''Yes''\<rparr>) = ''Partial Contact'' \<and>
   determine_contact_status
      (example_row\<lparr>email_contact_attempt := Str ''yes'',
                   sms_contact_attempt := Str ''yes'',
                   phone_call_attempt := Str ''yes''\<rparr>) = ''No Contact''"
  by (simp add: determine_contact_status_def example_row_def)

text \<open>
  C3, as amended. The contact tier is the mapping of the number of the three flags whose
  value is exactly the string \<open>Yes\<close> (case matters): none gives "No Contact", one or two
  give "Partial Contact", three give "Full Contact".
\<close>

theorem contact_status_counts_exact_yes:
  "determine_contact_status row =
     (let n = length (filter (\<lambda>flag. flag = Str ''Yes'')
                [email_contact_attempt row, sms_contact_attempt row, phone_call_attempt row])
      in if n = 0 then ''No Contact''
         else if n = 1 \<or> n = 2 then ''Partial Contact''
         else ''Full Contact'') \<and>
   length (filter (\<lambda>flag. flag = Str ''Yes'')
      [email_contact_attempt row, sms_contact_attempt row, phone_call_attempt row]) \<le> 3"
  by (simp add: determine_contact_status_def Let_def)

theorem contact_status_counts_exact_yes_witness:
  "determine_contact_status example_row = ''Partial Contact'' \<and>
   determine_contact_status
      (example_row\<lparr>email_contact_attempt := Str ''No''\<rparr>) = ''No Contact'' \<and>
   determine_contact_status
      (example_row\<lparr>sms_contact_attempt := Str ''Yes'', phone_call_attempt := Str ''Yes''\<rparr>)
     = ''Full Contact''"
  using contact_status_counts_exact_yes [of example_row]
    contact_status_counts_exact_yes [of "example_row\<lparr>email_contact_attempt := Str ''No''\<rparr>"]
    contact_status_counts_exact_yes
      [of "example_row\<lparr>sms_contact_attempt := Str ''Yes'', phone_call_attempt := Str ''Yes''\<rparr>"]
  by (simp add: example_row_def)

section \<open>C4: transfer eligibility with an inclusive cutoff\<close>

text \<open>
  C4. \<open>check_transfer_eligibility\<close> answers "Eligible for Transfer" exactly when the date
  is known and not after 2020-04-24 00:00, and "Not Eligible" in every other case:
  2020-04-24 itself is eligible, 2020-04-25 is not, an unknown date is not; and the
  answer for a text cell is the answer for what \<open>strptime\<close> makes of its date part, so
  "Not Eligible" when that does not parse.
\<close>

theorem transfer_eligibility_inclusive_cutoff:
  "(check_transfer_eligibility d = ''Eligible for Transfer''
      \<longleftrightarrow> (\<exists>t. d = Some t \<and> t \<le> (2020, 4, 24, 0, 0, 0, 0))) \<and>
   (check_transfer_eligibility d = ''Not Eligible''
      \<longleftrightarrow> \<not> (\<exists>t. d = Some t \<and> t \<le> (2020, 4, 24, 0, 0, 0, 0))) \<and>
   check_transfer_eligibility (Some (2020, 4, 24, 0, 0, 0, 0)) = ''Eligible for Transfer'' \<and>
   check_transfer_eligibility (Some (2020, 4, 25, 0, 0, 0, 0)) = ''Not Eligible'' \<and>
   check_transfer_eligibility None = ''Not Eligible'' \<and>
   map_sum id check_transfer_eligibility (clean_date strptime (Str text))
     = Inr (check_transfer_eligibility (strptime (takeWhile (\<lambda>ch. ch \<noteq> CHR ''T'') text)))"
  by (cases d) (simp_all add: check_transfer_eligibility_def)

theorem transfer_eligibility_inclusive_cutoff_witness:
  "check_transfer_eligibility (Some (2020, 4, 24, 0, 0, 0, 0)) = ''Eligible for Transfer'' \<and>
   check_transfer_eligibility (Some (2020, 4, 25, 0, 0, 0, 0)) = ''Not Eligible'' \<and>
   check_transfer_eligibility (Some (2020, 4, 23, 23, 59, 59, 999999)) = ''Eligible for Transfer'' \<and>
   map_sum id check_transfer_eligibility
      (clean_date (\<lambda>s. if s = ''2020-04-24'' then Some (2020, 4, 24, 0, 0, 0, 0) else None)
         (Str ''2020-04-24T10:30:00'')) = Inr ''Eligible for Transfer'' \<and>
   map_sum id check_transfer_eligibility
      (clean_date (\<lambda>s. if s = ''2020-04-24'' then Some (2020, 4, 24, 0, 0, 0, 0) else None)
         (Str ''24/04/2020'')) = Inr ''Not Eligible''"
  using transfer_eligibility_inclusive_cutoff [of "Some (2020, 4, 23, 23, 59, 59, 999999)"
      "\<lambda>s. if s = ''2020-04-24'' then Some (2020, 4, 24, 0, 0, 0, 0) else None"
      "''2020-04-24T10:30:00''"]
    transfer_eligibility_inclusive_cutoff [of None
      "\<lambda>s. if s = ''2020-04-24'' then Some (2020, 4, 24, 0, 0, 0, 0) else None"
      "''24/04/2020''"]
  by simp

section \<open>C5: rows without a known date are never selected by age\<close>

lemma violations_rows:
  assumes "violations p now raw = Inr vs" and "r \<in> set vs"
  shows "date_before (last_transaction_date r) (now - 1095 * ns_per_day) \<and>
         r \<in> set (map (\<lambda>r. with_date r (to_datetime_coerce p (last_transaction_date r))) raw)"
  using assms
  by (auto simp: violations_def rows_of_type_def Let_def split: sum.splits if_splits)

lemma date_before_known:
  "date_before d bound \<Longrightarrow> \<exists>t. d = Some t \<and> t < bound"
  by (cases d) auto

lemma with_date_date: "last_transaction_date (with_date r d) = d"
  by (simp add: with_date_def)

lemma example_violations:
  "violations example_parser (example_date + 2864 * ns_per_day)
      [example_raw ''A1'' (Str ''2019-01-01''), example_raw ''A2'' (Str ''unknown''),
       example_raw ''A3'' NaN]
     = Inr [with_date (example_raw ''A1'' (Str ''2019-01-01'')) (Some example_date)]"
  by code_simp

text \<open>
  C5. In both investment scripts a row whose date is missing or does not parse is
  converted to an unknown date, and no row of the result has an unknown date: every
  selected row has a known date strictly before the threshold (now minus 3 times 365
  days). The same holds for the inactive flag of the fixed deposit tracker, which is
  false on an unknown date.
\<close>

theorem unknown_dates_never_selected:
  "(\<forall>vs. violations p now raw = Inr vs \<longrightarrow>
      (\<forall>r \<in> set vs. \<exists>t. last_transaction_date r = Some t \<and> t < now - 1095 * ns_per_day) \<and>
      (\<forall>r \<in> set raw. to_datetime_coerce p (last_transaction_date r) = None
          \<longrightarrow> with_date r (to_datetime_coerce p (last_transaction_date r)) \<notin> set vs)) \<and>
   (\<forall>vs. inactive_investments p now raw = Inr vs \<longrightarrow>
      (\<forall>r \<in> set vs. \<exists>t. last_transaction_date r = Some t \<and> t < now - 1095 * ns_per_day) \<and>
      (\<forall>r \<in> set raw. to_datetime_coerce p (last_transaction_date r) = None
          \<longrightarrow> with_date r (to_datetime_coerce p (last_transaction_date r)) \<notin> set vs)) \<and>
   (last_transaction_date row = None \<longrightarrow> \<not> inactive_flag (calculate_maturity_row now row))"
proof -
  have main: "(\<forall>r \<in> set vs. \<exists>t. last_transaction_date r = Some t \<and> t < now - 1095 * ns_per_day) \<and>
      (\<forall>r \<in> set raw. to_datetime_coerce p (last_transaction_date r) = None
          \<longrightarrow> with_date r (to_datetime_coerce p (last_transaction_date r)) \<notin> set vs)"
    if v: "violations p now raw = Inr vs" for vs
  proof -
    have known: "\<exists>t. last_transaction_date r = Some t \<and> t < now - 1095 * ns_per_day"
      if "r \<in> set vs" for r
      using violations_rows [OF v that] date_before_known by blast
    have "with_date r (to_datetime_coerce p (last_transaction_date r)) \<notin> set vs"
      if "to_datetime_coerce p (last_transaction_date r) = None" for r
    proof
      assume "with_date r (to_datetime_coerce p (last_transaction_date r)) \<in> set vs"
      from known [OF this] that show False
        by (simp add: with_date_date)
    qed
    with known show ?thesis by blast
  qed
  have flag: "\<not> inactive_flag (calculate_maturity_row now row)"
    if "last_transaction_date row = None"
    using that by (simp add: calculate_maturity_row_def account_row.extend_def)
  from main flag show ?thesis
    unfolding inactive_investments_def by blast
qed

theorem unknown_dates_never_selected_witness:
  "violations example_parser (example_date + 2864 * ns_per_day)
      [example_raw ''A1'' (Str ''2019-01-01''), example_raw ''A2'' (Str ''unknown''),
       example_raw ''A3'' NaN]
     = Inr [with_date (example_raw ''A1'' (Str ''2019-01-01'')) (Some example_date)] \<and>
   to_datetime_coerce example_parser (last_transaction_date (example_raw ''A2'' (Str ''unknown''))) = None \<and>
   to_datetime_coerce example_parser (last_transaction_date (example_raw ''A3'' NaN)) = None \<and>
   with_date (example_raw ''A2'' (Str ''unknown'')) None
     \<notin> set [with_date (example_raw ''A1'' (Str ''2019-01-01'')) (Some example_date)] \<and>
   with_date (example_raw ''A3'' NaN) None
     \<notin> set [with_date (example_raw ''A1'' (Str ''2019-01-01'')) (Some example_date)] \<and>
   last_transaction_date (with_date (example_raw ''A1'' (Str ''2019-01-01'')) (Some example_date))
     = Some example_date \<and>
   example_date < example_date + 2864 * ns_per_day - 1095 * ns_per_day"
proof -
  note run = example_violations
  have a2: "to_datetime_coerce example_parser (last_transaction_date (example_raw ''A2'' (Str ''unknown''))) = None"
    by code_simp
  have a3: "to_datetime_coerce example_parser (last_transaction_date (example_raw ''A3'' NaN)) = None"
    by code_simp
  have d: "example_date < example_date + 2864 * ns_per_day - 1095 * ns_per_day"
    by (simp add: ns_per_day_def)
  from unknown_dates_never_selected
         [of example_parser "example_date + 2864 * ns_per_day"
             "[example_raw ''A1'' (Str ''2019-01-01''), example_raw ''A2'' (Str ''unknown''),
               example_raw ''A3'' NaN]"] run
  have sel: "\<forall>r \<in> set [example_raw ''A1'' (Str ''2019-01-01''), example_raw ''A2'' (Str ''unknown''),
                       example_raw ''A3'' NaN].
               to_datetime_coerce example_parser (last_transaction_date r) = None
               \<longrightarrow> with_date r (to_datetime_coerce example_parser (last_transaction_date r))
                     \<notin> set [with_date (example_raw ''A1'' (Str ''2019-01-01'')) (Some example_date)]"
    by blast
  from sel a2 have n2: "with_date (example_raw ''A2'' (Str ''unknown'')) None
     \<notin> set [with_date (example_raw ''A1'' (Str ''2019-01-01'')) (Some example_date)]"
    by (metis list.set_intros(1) list.set_intros(2))
  from sel a3 have n3: "with_date (example_raw ''A3'' NaN) None
     \<notin> set [with_date (example_raw ''A1'' (Str ''2019-01-01'')) (Some example_date)]"
    by (metis list.set_intros(1) list.set_intros(2))
  from run a2 a3 n2 n3 d show ?thesis
    by (simp only: with_date_date simp_thms)
qed

section \<open>C6: what an empty selection does to each filter\<close>

text \<open>The example row as the categorisation step labels it, with thresholds 3, 4, 5.\<close>

lemma example_categorized:
  "example_run 1461 3 4 5 = Some [categorize_row 3 4 5 (example_inactive 1461 4)]"
  by code_simp




section \<open>C7: the freeze test and its exclusive cutoff\<close>

text \<open>
  C7, counterexample. A dormant account with expired KYC whose date text is the cutoff
  itself, 2022-01-01, is "Active".
\<close>

theorem freeze_cutoff_counterexample:
  "freeze_account (Str ''Dormant'') (Str ''2022-01-01'') (Str ''Expired'') = Inr ''Active'' \<and>
   ''2022-01-01'' \<le> ''2022-01-01''"
  by (simp add: freeze_account_def)

text \<open>
  C7, as amended. \<open>freeze_account\<close> answers "Frozen" exactly when the status is the string
  \<open>Dormant\<close>, the date text is strictly below \<open>2022-01-01\<close> in the order of strings, and
  the KYC status is the string \<open>Expired\<close>. The conditions are tried from the left: a
  missing date under a dormant status is a \<open>TypeError\<close>, every other case is "Active".
  The day before the cutoff is "Frozen", the cutoff itself "Active".
\<close>

theorem freeze_exclusive_cutoff:
  "(freeze_account status d kyc = Inr ''Frozen''
      \<longleftrightarrow> status = Str ''Dormant'' \<and> (\<exists>s. d = Str s \<and> s < ''2022-01-01'') \<and> kyc = Str ''Expired'') \<and>
   (freeze_account status d kyc = Inl TypeError \<longleftrightarrow> status = Str ''Dormant'' \<and> d = NaN) \<and>
   (freeze_account status d kyc = Inr ''Active''
      \<longleftrightarrow> \<not> (status = Str ''Dormant'' \<and> (\<exists>s. d = Str s \<and> s < ''2022-01-01'') \<and> kyc = Str ''Expired'') \<and>
          \<not> (status = Str ''Dormant'' \<and> d = NaN)) \<and>
   freeze_account (Str ''Dormant'') (Str ''2021-12-31'') (Str ''Expired'') = Inr ''Frozen'' \<and>
   freeze_account (Str ''Dormant'') (Str ''2022-01-01'') (Str ''Expired'') = Inr ''Active''"
  by (cases d) (auto simp: freeze_account_def)

theorem freeze_exclusive_cutoff_witness:
  "freeze_account (Str ''Dormant'') (Str ''2019-06-30'') (Str ''Expired'') = Inr ''Frozen'' \<and>
   ''2019-06-30'' < ''2022-01-01'' \<and>
   freeze_account (Str ''Dormant'') (Str ''2022-01-01'') (Str ''Expired'') = Inr ''Active''"
  using freeze_exclusive_cutoff [of "Str ''Dormant''" "Str ''2019-06-30''" "Str ''Expired''"]
  by simp

section \<open>C8: a date that does not parse\<close>

text \<open>
  Under the default \<^verbatim>\<open>errors='raise'\<close> one date text that the parser rejects fails the
  conversion of the whole column, and with it the load.
\<close>

lemma to_datetime_raise_error: "to_datetime_raise p x = Inl e \<Longrightarrow> e = ValueError"
  by (cases x) (auto split: parse_result.splits)

lemma convert_column_unparseable:
  "r \<in> set rows \<Longrightarrow> last_transaction_date r = Str s \<Longrightarrow> p s = Unparseable \<Longrightarrow>
   convert_column p rows = Inl ValueError"
proof (induction rows)
  case Nil
  then show ?case by simp
next
  case (Cons a rows)
  show ?case
  proof (cases "to_datetime_raise p (last_transaction_date a)")
    case (Inl e)
    then show ?thesis by (simp add: to_datetime_raise_error)
  next
    case (Inr d)
    with Cons.prems have "r \<in> set rows" by auto
    with Cons have "convert_column p rows = Inl ValueError" by simp
    with Inr show ?thesis by simp
  qed
qed

lemma load_unparseable:
  "r \<in> set rows \<Longrightarrow> last_transaction_date r = Str s \<Longrightarrow> p s = Unparseable \<Longrightarrow>
   load_account_data p c rows = (False, c\<lparr>accounts_df := Some (Raw rows)\<rparr>)"
  by (simp add: load_account_data_def convert_column_unparseable)

text \<open>
  On a column of strings the transfer agent's \<open>clean_date\<close> never raises: each text
  becomes the date that \<open>strptime\<close> reads from its date part, or the unknown date, and
  every row is produced.
\<close>

lemma clean_column_strings:
  "clean_column strptime (map Str texts)
     = Inr (map (\<lambda>t. strptime (takeWhile (\<lambda>ch. ch \<noteq> CHR ''T'') t)) texts)"
  by (induction texts) simp_all

text \<open>A missing date cell ends the transfer agent's run: the error is not the caught one.\<close>

lemma clean_date_error: "clean_date strptime x = Inl e \<Longrightarrow> e = AttributeError"
  by (cases x) (auto simp: Let_def)

lemma clean_column_missing:
  "NaN \<in> set cells \<Longrightarrow> clean_column strptime cells = Inl AttributeError"
proof (induction cells)
  case Nil
  then show ?case by simp
next
  case (Cons a cells)
  show ?case
  proof (cases "clean_date strptime a")
    case (Inl e)
    then show ?thesis by (simp add: clean_date_error)
  next
    case (Inr d)
    with Cons.prems have "NaN \<in> set cells" by auto
    with Cons have "clean_column strptime cells = Inl AttributeError" by simp
    with Inr show ?thesis by simp
  qed
qed

text \<open>
  C8 at the failing input: a table of two rows, the second with the date text
  \<open>31-12-2019x\<close> that the parser rejects. \<open>load_account_data\<close> answers \<^verbatim>\<open>False\<close> and no
  row with a converted date is produced, while the conversion with \<^verbatim>\<open>errors='coerce'\<close>
  of the sibling scripts keeps both rows, and so does the transfer agent's
  \<open>clean_column\<close>. The transfer agent in turn stops on a missing date cell.
\<close>

theorem load_aborts_on_unparseable_date:
  "load_account_data example_parser (example_checker 0)
      [example_raw ''A1'' (Str ''2019-01-01''), example_raw ''A2'' (Str ''31-12-2019x'')]
     = (False,
        (example_checker 0)
          \<lparr>accounts_df :=
             Some (Raw [example_raw ''A1'' (Str ''2019-01-01''),
                        example_raw ''A2'' (Str ''31-12-2019x'')])\<rparr>) \<and>
   map (to_datetime_coerce example_parser) [Str ''2019-01-01'', Str ''31-12-2019x'']
     = [Some example_date, None] \<and>
   clean_column (\<lambda>s. if s = ''2019-01-01'' then Some (2019, 1, 1, 0, 0, 0, 0) else None)
      [Str ''2019-01-01'', Str ''31-12-2019x'']
     = Inr [Some (2019, 1, 1, 0, 0, 0, 0), None] \<and>
   clean_column (\<lambda>s. if s = ''2019-01-01'' then Some (2019, 1, 1, 0, 0, 0, 0) else None)
      [Str ''2019-01-01'', NaN]
     = Inl AttributeError"
  by code_simp

section \<open>C9: the tier is one of four labels and grows with the elapsed years\<close>

text \<open>
  C9. For thresholds \<open>low < medium < high\<close> and every elapsed-years value, the tier is
  one of MONITOR, LOW, MEDIUM, HIGH, and a larger value never gets a smaller tier in
  the order MONITOR, LOW, MEDIUM, HIGH.
\<close>

theorem determine_category_total_monotone:
  "low < medium \<Longrightarrow> medium < high \<Longrightarrow>
   determine_category low medium high E \<in> {''MONITOR'', ''LOW'', ''MEDIUM'', ''HIGH''} \<and>
   (E1 \<le> E2 \<longrightarrow>
      tier_rank (determine_category low medium high E1)
        \<le> tier_rank (determine_category low medium high E2))"
  by (auto simp: determine_category_def tier_rank_def)

theorem determine_category_total_monotone_witness:
  "(3::rat) < 4 \<and> (4::rat) < 5 \<and>
   determine_category 3 4 5 (21 / 5) \<in> {''MONITOR'', ''LOW'', ''MEDIUM'', ''HIGH''} \<and>
   (7 / 2 :: rat) \<le> 9 / 2 \<and>
   tier_rank (determine_category 3 4 5 (7 / 2)) \<le> tier_rank (determine_category 3 4 5 (9 / 2))"
  using determine_category_total_monotone [of 3 4 5 "21 / 5" "7 / 2" "9 / 2"] by simp

section \<open>C10: the identified rows satisfy the request and are sorted\<close>

text \<open>The rounded value is at most half a unit away, and a whole number is left as it is.\<close>

lemma round_half_even_lower: "q - 1 / 2 \<le> of_int (round_half_even q)"
proof -
  define f where "f = \<lfloor>q\<rfloor>"
  have lo: "of_int f \<le> q" and hi: "q < of_int f + 1"
    unfolding f_def by linarith+
  have "round_half_even q = f \<and> q - of_int f \<le> 1 / 2 \<or> round_half_even q = f + 1"
    by (auto simp: round_half_even_def Let_def f_def)
  then show ?thesis
  proof
    assume "round_half_even q = f \<and> q - of_int f \<le> 1 / 2"
    then show ?thesis by simp
  next
    assume "round_half_even q = f + 1"
    with hi show ?thesis by simp
  qed
qed

lemma round_half_even_Ints: "q \<in> \<int> \<Longrightarrow> of_int (round_half_even q) = q"
  by (auto elim!: Ints_cases simp: round_half_even_int)

text \<open>
  The cutoff in plain numbers: a date before the cutoff is before today minus
  \<open>inactivity_years\<close> times 365 days of 86400000000000 nanoseconds, up to the half
  microsecond that \<^verbatim>\<open>timedelta\<close> may round away, and exactly so when the period is a
  whole number of microseconds.
\<close>

lemma before_cutoff_explicit:
  assumes "t < cutoff_date now y"
  shows "of_int t < of_int now - y * 365 * 86400000000000 + (500::rat)"
    and "y * 365 * 86400000000 \<in> \<int> \<Longrightarrow> of_int t < of_int now - y * 365 * (86400000000000::rat)"
proof -
  let ?q = "y * 365 * 86400000000"
  from assms have "t < now - 1000 * round_half_even ?q"
    by (simp add: cutoff_date_def timedelta_days_def)
  then have "(of_int t :: rat) < of_int (now - 1000 * round_half_even ?q)"
    by (simp only: of_int_less_iff)
  then have lt: "(of_int t :: rat) < of_int now - 1000 * of_int (round_half_even ?q)"
    by simp
  have "?q - 1 / 2 \<le> of_int (round_half_even ?q)"
    by (rule round_half_even_lower)
  with lt show "of_int t < of_int now - y * 365 * 86400000000000 + (500::rat)"
    by simp
  show "of_int t < of_int now - y * 365 * (86400000000000::rat)" if "?q \<in> \<int>"
  proof -
    from that have "of_int (round_half_even ?q) = ?q"
      by (rule round_half_even_Ints)
    with lt show ?thesis by simp
  qed
qed

lemma add_inactivity_days:
  "r' \<in> set (add_inactivity now r) \<Longrightarrow>
   \<exists>t. last_transaction_date r = Some t \<and> days_inactive r' = (now - t) div 86400000000000"
  by (cases "last_transaction_date r")
     (auto simp: add_inactivity_def dt_days_def ns_per_day_def account_row.extend_def)

lemma selected_explicit:
  "selected now y ts r \<Longrightarrow>
   account_type r \<in> set ts \<and> (\<exists>t. last_transaction_date r = Some t \<and> t < cutoff_date now y)"
  by (cases "last_transaction_date r") (auto simp: selected_def isin_def)

lemma example_table_identify:
  "fst (identify_inactive_accounts table_checker 3 [Str ''Savings/Call/Current''])
     = Inr (Some [table_inactive ''F'' (- 100) 2100 (575 / 100),
                  table_inactive ''A'' 0 2000 (548 / 100),
                  table_inactive ''B'' 500 1500 (411 / 100)])"
  by code_simp

text \<open>
  C10. Every row that \<open>identify_inactive_accounts\<close> returns has an account type that is
  a member of the requested list and a known last-transaction date strictly before
  today minus \<open>inactivity_years\<close> times 365 days (exactly so when that period is a whole
  number of microseconds, as for every whole or half number of years, and otherwise up
  to the half microsecond that the period is rounded by); its \<open>days_inactive\<close> is the
  number of whole days from that date to today; and the rows come with the largest
  \<open>days_inactive\<close> first.
\<close>

theorem identify_sound_sorted:
  assumes "fst (identify_inactive_accounts c y ts) = Inr (Some rs)"
  shows "(\<forall>r \<in> set rs.
            account_type r \<in> set ts \<and>
            (\<exists>t. last_transaction_date r = Some t \<and>
                 of_int t < of_int (today c) - y * 365 * 86400000000000 + (500::rat) \<and>
                 (y * 365 * 86400000000 \<in> \<int>
                    \<longrightarrow> of_int t < of_int (today c) - y * 365 * (86400000000000::rat)) \<and>
                 days_inactive r = (today c - t) div 86400000000000)) \<and>
         sorted_wrt (\<lambda>a b. days_inactive b \<le> days_inactive a) rs"
proof -
  from assms obtain c' where run: "identify_inactive_accounts c y ts = (Inr (Some rs), c')"
    by (cases "identify_inactive_accounts c y ts") simp
  have "account_type r \<in> set ts \<and>
        (\<exists>t. last_transaction_date r = Some t \<and>
             of_int t < of_int (today c) - y * 365 * 86400000000000 + (500::rat) \<and>
             (y * 365 * 86400000000 \<in> \<int>
                \<longrightarrow> of_int t < of_int (today c) - y * 365 * (86400000000000::rat)) \<and>
             days_inactive r = (today c - t) div 86400000000000)"
    if "r \<in> set rs" for r
  proof -
    from run that obtain r0 where
      r0: "selected (today c) y ts r0" "r \<in> set (add_inactivity (today c) r0)"
      by (rule identified_row)
    from r0(2) have eq: "account_type r = account_type r0"
      "last_transaction_date r = last_transaction_date r0"
      using add_inactivity_fields by blast+
    from r0(1) obtain t where t: "account_type r0 \<in> set ts"
      "last_transaction_date r0 = Some t" "t < cutoff_date (today c) y"
      using selected_explicit by blast
    from r0(2) t(2) have days: "days_inactive r = (today c - t) div 86400000000000"
      using add_inactivity_days by fastforce
    from t(3) have "of_int t < of_int (today c) - y * 365 * 86400000000000 + (500::rat)"
      and "y * 365 * 86400000000 \<in> \<int>
             \<longrightarrow> of_int t < of_int (today c) - y * 365 * (86400000000000::rat)"
      using before_cutoff_explicit by blast+
    with t(1,2) days show ?thesis
      unfolding eq by blast
  qed
  moreover have "sorted_wrt (\<lambda>a b. days_inactive b \<le> days_inactive a) rs"
  proof -
    from run obtain rows where
      "rs = sort_days_desc (concat (map (add_inactivity (today c))
              (filter (selected (today c) y ts) rows)))"
      by (rule identify_result)
    then show ?thesis by (simp add: sorted_sort_days_desc)
  qed
  ultimately show ?thesis by blast
qed

theorem identify_sound_sorted_witness:
  "fst (identify_inactive_accounts table_checker 3 [Str ''Savings/Call/Current''])
     = Inr (Some [table_inactive ''F'' (- 100) 2100 (575 / 100),
                  table_inactive ''A'' 0 2000 (548 / 100),
                  table_inactive ''B'' 500 1500 (411 / 100)]) \<and>
   map account_id example_table = [Str ''B'', Str ''C'', Str ''A'', Str ''D'', Str ''E'', Str ''F''] \<and>
   (3 * 365 * 86400000000 :: rat) \<in> \<int> \<and>
   list_all (\<lambda>r. account_type r \<in> set [Str ''Savings/Call/Current''] \<and>
                 (\<exists>t. last_transaction_date r = Some t \<and>
                      of_int t < of_int (today table_checker) - 3 * 365 * (86400000000000::rat) \<and>
                      days_inactive r = (today table_checker - t) div 86400000000000))
     [table_inactive ''F'' (- 100) 2100 (575 / 100),
      table_inactive ''A'' 0 2000 (548 / 100),
      table_inactive ''B'' 500 1500 (411 / 100)] \<and>
   map days_inactive
     [table_inactive ''F'' (- 100) 2100 (575 / 100),
      table_inactive ''A'' 0 2000 (548 / 100),
      table_inactive ''B'' 500 1500 (411 / 100)] = [2100, 2000, 1500] \<and>
   sorted_wrt (\<lambda>a b. days_inactive b \<le> days_inactive a)
     [table_inactive ''F'' (- 100) 2100 (575 / 100),
      table_inactive ''A'' 0 2000 (548 / 100),
      table_inactive ''B'' 500 1500 (411 / 100)]"
proof -
  note run = example_table_identify
  have ids: "map account_id example_table
      = [Str ''B'', Str ''C'', Str ''A'', Str ''D'', Str ''E'', Str ''F'']"
    by (simp add: example_table_def table_row_def)
  have whole: "(3 * 365 * 86400000000 :: rat) \<in> \<int>"
    by simp
  have days: "map days_inactive
     [table_inactive ''F'' (- 100) 2100 (575 / 100),
      table_inactive ''A'' 0 2000 (548 / 100),
      table_inactive ''B'' 500 1500 (411 / 100)] = [2100, 2000, 1500]"
    by (simp add: table_inactive_def account_row.extend_def)
  from identify_sound_sorted [OF run] whole
  have "list_all (\<lambda>r. account_type r \<in> set [Str ''Savings/Call/Current''] \<and>
                 (\<exists>t. last_transaction_date r = Some t \<and>
                      of_int t < of_int (today table_checker) - 3 * 365 * (86400000000000::rat) \<and>
                      days_inactive r = (today table_checker - t) div 86400000000000))
     [table_inactive ''F'' (- 100) 2100 (575 / 100),
      table_inactive ''A'' 0 2000 (548 / 100),
      table_inactive ''B'' 500 1500 (411 / 100)]"
    and "sorted_wrt (\<lambda>a b. days_inactive b \<le> days_inactive a)
     [table_inactive ''F'' (- 100) 2100 (575 / 100),
      table_inactive ''A'' 0 2000 (548 / 100),
      table_inactive ''B'' 500 1500 (411 / 100)]"
    unfolding list_all_iff by blast+
  with run ids whole days show ?thesis by blast
qed

end
